theory Spec2Isabelle
  imports Complex_Main "HOL-Library.Word"
begin

section \<open>Utils/DrawConstellations.py: the constellation overlay\<close>

text \<open>
  The module has one function of substance, \<open>drawConstellations\<close>, which allocates a
  transparent BGRA canvas, computes the middle time of the FF file, reads the table of
  constellation lines, projects both endpoints of every line, and draws the lines whose
  first endpoint is close enough to the centre of the field of view.

  Array values are real numbers here, except the projected pixel coordinates, which keep
  the three non-finite values of a float because the conversion \<open>int(round(x))\<close>
  raises on them. Every exception of the Python code is a value of \<open>error\<close>.
\<close>

subsection \<open>Exceptions and floats\<close>

datatype error =
    AttributeError
  | ValueError
  | OverflowError
  | IndexError
  | UnboundLocalError
  | OSError
  | Cv2ArgError
  | TimeError

text \<open>
  \<open>Cv2ArgError\<close> stands for what the OpenCV binding raises when a point coordinate
  does not fit a C \<open>int\<close>; \<open>TimeError\<close> for whatever \<open>getMiddleTimeFF\<close> raises on a
  file name it cannot read a time from.
\<close>

datatype npfloat = Finite real | NaN | PosInf | NegInf

definition py_round :: "real \<Rightarrow> int" where
  \<comment> \<open>\<open>round(x)\<close> with one argument: to the nearest integer, a tie to the even one.\<close>
  "py_round x =
     (let f = \<lfloor>x\<rfloor>; d = x - of_int f
      in if d < 1 / 2 then f
         else if 1 / 2 < d then f + 1
         else if even f then f else f + 1)"

definition int_round :: "npfloat \<Rightarrow> error + int" where
  \<comment> \<open>\<open>int(round(x))\<close>: NaN raises ValueError, an infinity raises OverflowError.\<close>
  "int_round x =
     (case x of
        Finite r \<Rightarrow> Inr (py_round r)
      | NaN \<Rightarrow> Inl ValueError
      | PosInf \<Rightarrow> Inl OverflowError
      | NegInf \<Rightarrow> Inl OverflowError)"

definition getitem :: "'a list \<Rightarrow> nat \<Rightarrow> error + 'a" where
  \<comment> \<open>\<open>xs[i]\<close> for \<open>i\<close> from a \<open>range\<close>, so never negative.\<close>
  "getitem xs i = (if i < length xs then Inr (xs ! i) else Inl IndexError)"

definition py_not :: "int list option \<Rightarrow> bool" where
  \<comment> \<open>\<open>not v\<close> for \<open>v\<close> that is \<open>None\<close> or a list: true on \<open>None\<close> and on \<open>[]\<close>.\<close>
  "py_not v = (case v of None \<Rightarrow> True | Some xs \<Rightarrow> xs = [])"

definition basename :: "string \<Rightarrow> string" where
  \<comment> \<open>\<open>os.path.basename\<close>: what follows the last slash.\<close>
  "basename p = rev (takeWhile (\<lambda>c. c \<noteq> CHR ''/'') (rev p))"

definition deg2rad :: "real \<Rightarrow> real" where
  "deg2rad x = x * (pi / 180)"

definition rad2deg :: "real \<Rightarrow> real" where
  "rad2deg x = x * (180 / pi)"

subsection \<open>The calibration, the configuration and the collaborators\<close>

record platepar =
  X_res :: int
  Y_res :: int
  RA_d :: real
  dec_d :: real
  F_scale :: real
  refraction :: bool

record config =
  fps :: real
  frames_per_block :: int

type_synonym datetime = "int \<times> int \<times> int \<times> int \<times> int \<times> int \<times> real"

datatype csv_file = Missing | NonNumeric | Rows "real list list"

text \<open>
  What the function reaches outside itself is collected in \<open>env\<close>: the content of
  \<open>share/constellation_lines.csv\<close> next to the module at the time of the call
  (\<open>Missing\<close> when it cannot be opened, \<open>NonNumeric\<close> when a field is not a number,
  otherwise its rows of numbers), the two time functions of \<open>RMS.Formats.FFfile\<close> and
  \<open>RMS.Astrometry.Conversions\<close>, the projection of one sky position to a pixel
  position, and the pixels that OpenCV's line primitive covers between two points on a
  canvas of a given width and height.
\<close>

record env =
  catalog_file :: csv_file
  getMiddleTimeFF :: "string \<Rightarrow> real \<Rightarrow> int \<Rightarrow> error + datetime"
  date2JD :: "datetime \<Rightarrow> real"
  project_pt :: "real \<Rightarrow> real \<Rightarrow> real \<Rightarrow> platepar \<Rightarrow> npfloat \<times> npfloat"
  line_pixels :: "nat \<times> nat \<Rightarrow> int \<times> int \<Rightarrow> int \<times> int \<Rightarrow> (nat \<times> nat) list"

definition raDecToXYPP ::
  "env \<Rightarrow> real list \<Rightarrow> real list \<Rightarrow> real \<Rightarrow> platepar \<Rightarrow> npfloat list \<times> npfloat list" where
  \<comment> \<open>Modelled from the spec: \<open>RMS.Astrometry.ApplyAstrometry.raDecToXYPP\<close> is not in the
      sources at hand; the specification has it vectorised and pure, a call on arrays
      giving what the calls on the single points give.\<close>
  "raDecToXYPP e ra dec jd pp =
     (let xy = map (\<lambda>(r, d). project_pt e r d jd pp) (zip ra dec)
      in (map fst xy, map snd xy))"

definition angularSeparation :: "real \<Rightarrow> real \<Rightarrow> real \<Rightarrow> real \<Rightarrow> real" where
  \<comment> \<open>Modelled from the spec: \<open>RMS.Math.angularSeparation\<close> is not in the sources at
      hand; the specification gives the law of cosines on the unit sphere, in radians.\<close>
  "angularSeparation ra1 dec1 ra2 dec2 =
     arccos (sin dec1 * sin dec2 + cos dec1 * cos dec2 * cos (ra1 - ra2))"

subsection \<open>numpy: the table of lines and the canvas\<close>

datatype table = Arr0 real | Arr1 "real list" | Arr2 "real list list"

definition rectangular :: "real list list \<Rightarrow> bool" where
  "rectangular rows = list_all (\<lambda>r. length r = length (hd rows)) rows"

definition squeeze :: "real list list \<Rightarrow> table" where
  \<comment> \<open>\<open>np.loadtxt\<close> is called without \<open>ndmin\<close>, so axes of length one are removed from
      its result: no row gives an empty vector, one row a vector (one field a scalar),
      one column a vector.\<close>
  "squeeze rows =
     (case rows of
        [] \<Rightarrow> Arr1 []
      | [r] \<Rightarrow> (case r of [v] \<Rightarrow> Arr0 v | _ \<Rightarrow> Arr1 r)
      | r # _ \<Rightarrow> if length r = 1 then Arr1 (map hd rows) else Arr2 rows)"

definition loadtxt :: "csv_file \<Rightarrow> error + table" where
  "loadtxt f =
     (case f of
        Missing \<Rightarrow> Inl OSError
      | NonNumeric \<Rightarrow> Inl ValueError
      | Rows rows \<Rightarrow> if rectangular rows then Inr (squeeze rows) else Inl ValueError)"

definition column :: "table \<Rightarrow> nat \<Rightarrow> error + real list" where
  \<comment> \<open>\<open>lines[:, k]\<close>: two indices on an array of fewer than two axes raise IndexError,
      as does a column the array does not have.\<close>
  "column t k =
     (case t of
        Arr2 rows \<Rightarrow>
          if rows \<noteq> [] \<and> list_all (\<lambda>r. k < length r) rows
          then Inr (map (\<lambda>r. r ! k) rows) else Inl IndexError
      | Arr1 _ \<Rightarrow> Inl IndexError
      | Arr0 _ \<Rightarrow> Inl IndexError)"

record ndarray =
  dim0 :: nat
  dim1 :: nat
  dim2 :: nat
  elems :: "nat \<Rightarrow> nat \<Rightarrow> nat \<Rightarrow> 8 word"

definition shape :: "ndarray \<Rightarrow> int \<times> int \<times> int" where
  "shape a = (int (dim0 a), int (dim1 a), int (dim2 a))"

definition np_zeros :: "int \<Rightarrow> int \<Rightarrow> int \<Rightarrow> error + ndarray" where
  \<comment> \<open>\<open>np.zeros((a, b, c), dtype=np.uint8)\<close>; a negative dimension raises ValueError.\<close>
  "np_zeros a b c =
     (if a < 0 \<or> b < 0 \<or> c < 0 then Inl ValueError
      else Inr \<lparr>dim0 = nat a, dim1 = nat b, dim2 = nat c, elems = (\<lambda>y x k. 0)\<rparr>)"

definition set_channel :: "ndarray \<Rightarrow> nat \<Rightarrow> 8 word \<Rightarrow> ndarray" where
  \<comment> \<open>\<open>img[:, :, k] = v\<close> for a channel the array has.\<close>
  "set_channel a k v = a\<lparr>elems := (\<lambda>y x c. if c = k then v else elems a y x c)\<rparr>"

subsection \<open>OpenCV: the line primitive\<close>

definition saturate_u8 :: "int \<Rightarrow> 8 word" where
  "saturate_u8 v = word_of_int (max 0 (min 255 v))"

definition scalar_channel :: "int list \<Rightarrow> nat \<Rightarrow> 8 word" where
  \<comment> \<open>A colour of fewer than four numbers is filled with zeros.\<close>
  "scalar_channel color c = (if c < length color then saturate_u8 (color ! c) else 0)"

definition put_pixel :: "int list \<Rightarrow> ndarray \<Rightarrow> nat \<times> nat \<Rightarrow> ndarray" where
  \<comment> \<open>The pixel in column \<open>x\<close> of row \<open>y\<close> takes the colour; nothing is written outside
      the array.\<close>
  "put_pixel color a p =
     (case p of (x, y) \<Rightarrow>
        if y < dim0 a \<and> x < dim1 a
        then a\<lparr>elems := (\<lambda>y' x' c. if y' = y \<and> x' = x then scalar_channel color c
                                    else elems a y' x' c)\<rparr>
        else a)"

definition fits_c_int :: "int \<Rightarrow> bool" where
  "fits_c_int v = (- (2 ^ 31) \<le> v \<and> v < 2 ^ 31)"

definition raster_line :: "env \<Rightarrow> ndarray \<Rightarrow> int \<times> int \<Rightarrow> int \<times> int \<Rightarrow> int list \<Rightarrow> ndarray" where
  "raster_line e a p q color =
     foldl (put_pixel color) a (line_pixels e (dim1 a, dim0 a) p q)"

definition cv2_line ::
  "env \<Rightarrow> ndarray \<Rightarrow> int \<times> int \<Rightarrow> int \<times> int \<Rightarrow> int list \<Rightarrow> error + ndarray" where
  \<comment> \<open>\<open>cv2.line(img, p, q, color, 1)\<close>: the array is changed in place, clipped to it.\<close>
  "cv2_line e a p q color =
     (if fits_c_int (fst p) \<and> fits_c_int (snd p) \<and> fits_c_int (fst q) \<and> fits_c_int (snd q)
      then Inr (raster_line e a p q color)
      else Inl Cv2ArgError)"

subsection \<open>drawConstellations\<close>

fun for_each :: "('s \<Rightarrow> 'i \<Rightarrow> error + 's) \<Rightarrow> 's \<Rightarrow> 'i list \<Rightarrow> error + 's" where
  \<comment> \<open>A \<open>for\<close> loop whose body may raise: the first exception ends it.\<close>
  "for_each body s [] = Inr s"
| "for_each body s (i # is) =
     (case body s i of Inl e \<Rightarrow> Inl e | Inr s' \<Rightarrow> for_each body s' is)"

definition default_color :: "int list" where
  "default_color = [255, 0, 0, 192]"

definition alloc_canvas :: "platepar \<Rightarrow> error + ndarray" where
  \<comment> \<open>Lines 24 and 25.\<close>
  "alloc_canvas pp =
     (case np_zeros (Y_res pp) (X_res pp) 4 of
        Inl e \<Rightarrow> Inl e
      | Inr img \<Rightarrow> Inr (set_channel img 3 0))"

definition capture_moment :: "env \<Rightarrow> string \<Rightarrow> config option \<Rightarrow> error + real" where
  \<comment> \<open>Lines 26 and 27: \<open>fftime_jd\<close>. The arguments of \<open>getMiddleTimeFF\<close> are evaluated
      before it is called, so \<open>config.frames_per_block\<close> on \<open>None\<close> raises first.\<close>
  "capture_moment e ff_file cfg =
     (let fps = 25 in
      case cfg of
        None \<Rightarrow> Inl AttributeError
      | Some c \<Rightarrow>
          (case getMiddleTimeFF e (basename ff_file) fps (frames_per_block c) of
             Inl err \<Rightarrow> Inl err
           | Inr dt \<Rightarrow> Inr (date2JD e dt)))"

record segments =
  from_ra :: "real list"
  from_dec :: "real list"
  to_ra :: "real list"
  to_dec :: "real list"

definition load_lines :: "env \<Rightarrow> error + segments" where
  \<comment> \<open>Lines 28 to 31.\<close>
  "load_lines e =
     (case loadtxt (catalog_file e) of
        Inl err \<Rightarrow> Inl err
      | Inr lines \<Rightarrow>
     (case column lines 0 of Inl err \<Rightarrow> Inl err | Inr c0 \<Rightarrow>
     (case column lines 1 of Inl err \<Rightarrow> Inl err | Inr c1 \<Rightarrow>
     (case column lines 2 of Inl err \<Rightarrow> Inl err | Inr c2 \<Rightarrow>
     (case column lines 3 of Inl err \<Rightarrow> Inl err | Inr c3 \<Rightarrow>
        Inr \<lparr>from_ra = c0, from_dec = c1, to_ra = c2, to_dec = c3\<rparr>)))))"

definition ang_sep_of :: "platepar \<Rightarrow> real list \<Rightarrow> real list \<Rightarrow> real list" where
  \<comment> \<open>Line 33; the scalar centre is broadcast against the two columns.\<close>
  "ang_sep_of pp ras decs =
     map rad2deg
       (map (\<lambda>(r, d). angularSeparation (deg2rad (RA_d pp)) (deg2rad (dec_d pp)) r d)
            (zip (map deg2rad ras) (map deg2rad decs)))"

definition pixel_coord :: "npfloat list \<Rightarrow> nat \<Rightarrow> error + int" where
  \<comment> \<open>\<open>int(round(xs[i]))\<close>\<close>
  "pixel_coord xs i =
     (case getitem xs i of Inl e \<Rightarrow> Inl e | Inr v \<Rightarrow> int_round v)"

definition draw_segment ::
  "env \<Rightarrow> npfloat list \<Rightarrow> npfloat list \<Rightarrow> npfloat list \<Rightarrow> npfloat list \<Rightarrow>
   int list option \<Rightarrow> ndarray \<Rightarrow> nat \<Rightarrow> error + ndarray" where
  \<comment> \<open>Line 37, its arguments evaluated from left to right; \<open>color_bgr\<close> is a local
      variable that may never have been assigned.\<close>
  "draw_segment e from_x from_y to_x to_y color_bgr img i =
     (case pixel_coord from_x i of Inl err \<Rightarrow> Inl err | Inr x1 \<Rightarrow>
     (case pixel_coord from_y i of Inl err \<Rightarrow> Inl err | Inr y1 \<Rightarrow>
     (case pixel_coord to_x i of Inl err \<Rightarrow> Inl err | Inr x2 \<Rightarrow>
     (case pixel_coord to_y i of Inl err \<Rightarrow> Inl err | Inr y2 \<Rightarrow>
     (case color_bgr of
        None \<Rightarrow> Inl UnboundLocalError
      | Some c \<Rightarrow> cv2_line e img (x1, y1) (x2, y2) c)))))"

definition loop_body ::
  "env \<Rightarrow> npfloat list \<Rightarrow> npfloat list \<Rightarrow> npfloat list \<Rightarrow> npfloat list \<Rightarrow> real list \<Rightarrow>
   real \<Rightarrow> int list option \<Rightarrow> ndarray \<Rightarrow> nat \<Rightarrow> error + ndarray" where
  \<comment> \<open>Lines 36 and 37.\<close>
  "loop_body e from_x from_y to_x to_y ang_sep separation_deg color_bgr img i =
     (case getitem ang_sep i of
        Inl err \<Rightarrow> Inl err
      | Inr s \<Rightarrow>
          if s < separation_deg
          then draw_segment e from_x from_y to_x to_y color_bgr img i
          else Inr img)"

definition drawConstellations ::
  "env \<Rightarrow> platepar \<Rightarrow> string \<Rightarrow> real \<Rightarrow> int list option \<Rightarrow> config option \<Rightarrow> error + ndarray" where
  "drawConstellations e pp ff_file separation_deg color_bgra cfg =
     (let color_bgr = (if py_not color_bgra then Some default_color else None) in
      case alloc_canvas pp of Inl err \<Rightarrow> Inl err | Inr img \<Rightarrow>
     (case capture_moment e ff_file cfg of Inl err \<Rightarrow> Inl err | Inr fftime_jd \<Rightarrow>
     (case load_lines e of Inl err \<Rightarrow> Inl err | Inr segs \<Rightarrow>
     (let (from_x, from_y) = raDecToXYPP e (from_ra segs) (from_dec segs) fftime_jd pp;
          ang_sep = ang_sep_of pp (from_ra segs) (from_dec segs);
          (to_x, to_y) = raDecToXYPP e (to_ra segs) (to_dec segs) fftime_jd pp
      in for_each
           (loop_body e from_x from_y to_x to_y ang_sep separation_deg color_bgr)
           img [0..<length to_x]))))"

subsection \<open>One segment at a time\<close>

text \<open>
  The arrays of the function hold, at index \<open>i\<close>, what row \<open>i\<close> of the table gives.
  The definitions below name these values for one row, so that the result of the loop can
  be stated on the rows of the table.
\<close>

definition ang_sep_deg :: "platepar \<Rightarrow> real \<Rightarrow> real \<Rightarrow> real" where
  \<comment> \<open>One element of \<open>ang_sep\<close>.\<close>
  "ang_sep_deg pp ra dec =
     rad2deg (angularSeparation (deg2rad (RA_d pp)) (deg2rad (dec_d pp))
                (deg2rad ra) (deg2rad dec))"

definition accepted :: "platepar \<Rightarrow> real \<Rightarrow> real list \<Rightarrow> bool" where
  \<comment> \<open>The test of line 36 for a row.\<close>
  "accepted pp separation_deg r = (ang_sep_deg pp (r ! 0) (r ! 1) < separation_deg)"

definition draw_projected ::
  "env \<Rightarrow> int list option \<Rightarrow> ndarray \<Rightarrow> npfloat \<times> npfloat \<Rightarrow> npfloat \<times> npfloat \<Rightarrow>
   error + ndarray" where
  \<comment> \<open>Line 37 on the projections of the two endpoints of a row.\<close>
  "draw_projected e color_bgr img p q =
     (case int_round (fst p) of Inl err \<Rightarrow> Inl err | Inr x1 \<Rightarrow>
     (case int_round (snd p) of Inl err \<Rightarrow> Inl err | Inr y1 \<Rightarrow>
     (case int_round (fst q) of Inl err \<Rightarrow> Inl err | Inr x2 \<Rightarrow>
     (case int_round (snd q) of Inl err \<Rightarrow> Inl err | Inr y2 \<Rightarrow>
     (case color_bgr of
        None \<Rightarrow> Inl UnboundLocalError
      | Some c \<Rightarrow> cv2_line e img (x1, y1) (x2, y2) c)))))"

definition draw_row_checked ::
  "env \<Rightarrow> platepar \<Rightarrow> real \<Rightarrow> int list option \<Rightarrow> ndarray \<Rightarrow> real list \<Rightarrow> error + ndarray" where
  "draw_row_checked e pp jd color_bgr img r =
     draw_projected e color_bgr img
       (project_pt e (r ! 0) (r ! 1) jd pp) (project_pt e (r ! 2) (r ! 3) jd pp)"

definition is_finite :: "npfloat \<Rightarrow> bool" where
  "is_finite v = (case v of Finite r \<Rightarrow> True | NaN \<Rightarrow> False | PosInf \<Rightarrow> False | NegInf \<Rightarrow> False)"

definition pixel_of :: "npfloat \<Rightarrow> int" where
  \<comment> \<open>The rounded coordinate of a finite value; on the others \<open>int_round\<close> raises, and the
      0 here is never drawn with.\<close>
  "pixel_of v = (case v of Finite r \<Rightarrow> py_round r | NaN \<Rightarrow> 0 | PosInf \<Rightarrow> 0 | NegInf \<Rightarrow> 0)"

definition drawable :: "npfloat \<times> npfloat \<Rightarrow> bool" where
  \<comment> \<open>A projected point that line 37 can pass to the line primitive.\<close>
  "drawable p =
     (is_finite (fst p) \<and> is_finite (snd p) \<and>
      fits_c_int (pixel_of (fst p)) \<and> fits_c_int (pixel_of (snd p)))"


definition row_drawable :: "env \<Rightarrow> platepar \<Rightarrow> real \<Rightarrow> real list \<Rightarrow> bool" where
  "row_drawable e pp jd r =
     (drawable (project_pt e (r ! 0) (r ! 1) jd pp) \<and> drawable (project_pt e (r ! 2) (r ! 3) jd pp))"

definition draw_row :: "env \<Rightarrow> platepar \<Rightarrow> real \<Rightarrow> ndarray \<Rightarrow> real list \<Rightarrow> ndarray" where
  \<comment> \<open>The canvas after the line of a row has been drawn in the default colour.\<close>
  "draw_row e pp jd img r =
     (let p = project_pt e (r ! 0) (r ! 1) jd pp; q = project_pt e (r ! 2) (r ! 3) jd pp
      in raster_line e img (pixel_of (fst p), pixel_of (snd p))
           (pixel_of (fst q), pixel_of (snd q)) default_color)"

definition table_ok :: "real list list \<Rightarrow> bool" where
  \<comment> \<open>The tables that lines 29 to 31 accept: at least two rows, all of one length, of
      at least four fields.\<close>
  "table_ok rows = (rectangular rows \<and> 2 \<le> length rows \<and> 4 \<le> length (hd rows))"

definition row_pixels ::
  "env \<Rightarrow> platepar \<Rightarrow> real \<Rightarrow> ndarray \<Rightarrow> real list \<Rightarrow> (nat \<times> nat) list" where
  \<comment> \<open>The pixels, as (column, row), that the line primitive covers for a row of the table
      on a canvas of the size of \<open>a\<close>.\<close>
  "row_pixels e pp jd a r =
     (let p = project_pt e (r ! 0) (r ! 1) jd pp; q = project_pt e (r ! 2) (r ! 3) jd pp
      in line_pixels e (dim1 a, dim0 a) (pixel_of (fst p), pixel_of (snd p))
           (pixel_of (fst q), pixel_of (snd q)))"

definition covered ::
  "env \<Rightarrow> platepar \<Rightarrow> real \<Rightarrow> ndarray \<Rightarrow> real list list \<Rightarrow> nat \<Rightarrow> nat \<Rightarrow> bool" where
  \<comment> \<open>The pixel in row \<open>y\<close>, column \<open>x\<close> lies on the canvas and on the line of one of
      the rows \<open>rs\<close>.\<close>
  "covered e pp jd a rs y x =
     (y < dim0 a \<and> x < dim1 a \<and> list_ex (\<lambda>r. (x, y) \<in> set (row_pixels e pp jd a r)) rs)"

subsection \<open>A small instance\<close>

text \<open>
  A camera of 4 by 3 pixels pointing at right ascension 0, declination 0; a table of two
  lines, the first starting at the centre, the second starting a quarter of a circle away
  from it; a projection that takes the sky coordinates as pixel coordinates; a line
  primitive that covers the two endpoints only.
\<close>

definition demo_platepar :: platepar where
  "demo_platepar =
     \<lparr>X_res = 4, Y_res = 3, RA_d = 0, dec_d = 0, F_scale = 1, refraction = False\<rparr>"

definition demo_config :: config where
  "demo_config = \<lparr>fps = 30, frames_per_block = 256\<rparr>"

definition demo_rows :: "real list list" where
  "demo_rows = [[0, 0, 2, 1], [0, 90, 1, 2]]"

definition demo_jd :: real where
  "demo_jd = 2458849.5"

definition demo_env :: env where
  "demo_env =
     \<lparr>catalog_file = Rows demo_rows,
      getMiddleTimeFF = (\<lambda>name f n. Inr (2020, 1, 1, 0, 0, 5, 120)),
      date2JD = (\<lambda>dt. demo_jd),
      project_pt = (\<lambda>ra dec jd pp. (Finite ra, Finite dec)),
      line_pixels = (\<lambda>size p q. [(nat (fst p), nat (snd p)), (nat (fst q), nat (snd q))])\<rparr>"

definition demo_env_nan :: env where
  \<comment> \<open>The same, with a projection that is not a number at right ascension 1.\<close>
  "demo_env_nan =
     demo_env\<lparr>project_pt := (\<lambda>ra dec jd pp. (if ra = 1 then NaN else Finite ra, Finite dec))\<rparr>"

definition demo_env_one_row :: env where
  \<comment> \<open>The same as \<open>demo_env\<close>, with a table of the first line only.\<close>
  "demo_env_one_row = demo_env\<lparr>catalog_file := Rows [[0, 0, 2, 1]]\<rparr>"

definition demo_ff :: string where
  "demo_ff = ''/data/FF_XX0001_20200101_000000_000_0000000.fits''"

definition demo_blank :: ndarray where
  "demo_blank = \<lparr>dim0 = 3, dim1 = 4, dim2 = 4, elems = (\<lambda>y x c. 0)\<rparr>"

section \<open>Properties\<close>

subsection \<open>The angular separation\<close>

lemma law_of_cosines_range:
  "- 1 \<le> sin a * sin b + cos a * cos b * cos c \<and> sin a * sin b + cos a * cos b * cos c \<le> (1::real)"
proof -
  have c: "- 1 \<le> cos c" "cos c \<le> 1" by simp_all
  have up1: "cos (a - b) \<le> 1" and up2: "- cos (a + b) \<le> 1" 
    using cos_ge_minus_one[of "a + b"] by simp_all
  have lo1: "- 1 \<le> cos (a - b)" and lo2: "- 1 \<le> - cos (a + b)" by simp_all
  show ?thesis
  proof (cases "0 \<le> cos a * cos b")
    case True
    have "cos a * cos b * cos c \<le> cos a * cos b * 1"
      using True c by (intro mult_left_mono) auto
    moreover have "cos a * cos b * (- 1) \<le> cos a * cos b * cos c"
      using True c by (intro mult_left_mono) auto
    ultimately show ?thesis using up1 lo2 by (simp add: cos_diff cos_add)
  next
    case False
    then have neg: "cos a * cos b \<le> 0" by simp
    have "cos a * cos b * cos c \<le> cos a * cos b * (- 1)"
      using neg c by (intro mult_left_mono_neg) auto
    moreover have "cos a * cos b * 1 \<le> cos a * cos b * cos c"
      using neg c by (intro mult_left_mono_neg) auto
    ultimately show ?thesis using up2 lo1 by (simp add: cos_diff cos_add)
  qed
qed

lemma angularSeparation_range:
  "0 \<le> angularSeparation ra1 dec1 ra2 dec2 \<and> angularSeparation ra1 dec1 ra2 dec2 \<le> pi"
  unfolding angularSeparation_def using law_of_cosines_range arccos_bounded by blast

lemma ang_sep_deg_range: "0 \<le> ang_sep_deg pp ra dec \<and> ang_sep_deg pp ra dec \<le> 180"
proof -
  let ?s = "angularSeparation (deg2rad (RA_d pp)) (deg2rad (dec_d pp)) (deg2rad ra) (deg2rad dec)"
  have r: "0 \<le> ?s" "?s \<le> pi" using angularSeparation_range by blast+
  have "0 \<le> ?s * (180 / pi)" using r by simp
  moreover have "?s * (180 / pi) \<le> pi * (180 / pi)"
    using r by (intro mult_right_mono) auto
  ultimately show ?thesis by (simp add: ang_sep_deg_def rad2deg_def)
qed

lemma ang_sep_deg_centre: "ang_sep_deg demo_platepar 0 0 = 0"
  by (simp add: ang_sep_deg_def demo_platepar_def deg2rad_def rad2deg_def angularSeparation_def)

subsection \<open>The table\<close>

lemma squeeze_table_ok: "table_ok rows \<Longrightarrow> squeeze rows = Arr2 rows"
  by (auto simp: table_ok_def squeeze_def split: list.splits)

lemma table_ok_fields: "table_ok rows \<Longrightarrow> k < 4 \<Longrightarrow> list_all (\<lambda>r. k < length r) rows"
  by (auto simp: table_ok_def rectangular_def list_all_iff)

lemma column_table_ok:
  "table_ok rows \<Longrightarrow> k < 4 \<Longrightarrow> column (Arr2 rows) k = Inr (map (\<lambda>r. r ! k) rows)"
  using table_ok_fields[of rows k] by (auto simp: column_def table_ok_def)

lemma load_lines_table_ok:
  assumes "catalog_file e = Rows rows" and "table_ok rows"
  shows "load_lines e =
     Inr \<lparr>from_ra = map (\<lambda>r. r ! 0) rows, from_dec = map (\<lambda>r. r ! 1) rows,
          to_ra = map (\<lambda>r. r ! 2) rows, to_dec = map (\<lambda>r. r ! 3) rows\<rparr>"
proof -
  have "loadtxt (catalog_file e) = Inr (Arr2 rows)"
    using assms by (simp add: loadtxt_def squeeze_table_ok table_ok_def)
  then show ?thesis
    using assms(2) by (simp add: load_lines_def column_table_ok)
qed

lemma column_Inr: "column t k = Inr c \<Longrightarrow> \<exists>rows. t = Arr2 rows \<and> rows \<noteq> [] \<and> list_all (\<lambda>r. k < length r) rows"
  by (auto simp: column_def split: table.splits if_splits)

lemma squeeze_Arr2: "squeeze rows = Arr2 rows' \<Longrightarrow> rows' = rows \<and> 2 \<le> length rows"
  by (auto simp: squeeze_def split: list.splits if_splits)

lemma load_lines_Inr:
  assumes "load_lines e = Inr segs"
  shows "\<exists>rows. catalog_file e = Rows rows \<and> table_ok rows"
proof -
  from assms obtain t c3 where t: "loadtxt (catalog_file e) = Inr t" and c3: "column t 3 = Inr c3"
    by (auto simp: load_lines_def split: sum.splits)
  from t obtain rows where rows: "catalog_file e = Rows rows" "rectangular rows" "t = squeeze rows"
    by (auto simp: loadtxt_def split: csv_file.splits if_splits)
  from column_Inr[OF c3] obtain rows' where r': "t = Arr2 rows'" "rows' \<noteq> []" "list_all (\<lambda>r. 3 < length r) rows'"
    by blast
  with rows squeeze_Arr2[of rows rows'] have eq: "rows' = rows" "2 \<le> length rows" by auto
  with r' have "3 < length (hd rows)" by (cases rows) auto
  with rows eq show ?thesis by (auto simp: table_ok_def)
qed

subsection \<open>The arrays\<close>

lemma raDecToXYPP_rows:
  "raDecToXYPP e (map f rows) (map g rows) jd pp =
     (map (\<lambda>r. fst (project_pt e (f r) (g r) jd pp)) rows,
      map (\<lambda>r. snd (project_pt e (f r) (g r) jd pp)) rows)"
  by (simp add: raDecToXYPP_def zip_map_map zip_same_conv_map o_def)

lemma ang_sep_of_rows:
  "ang_sep_of pp (map f rows) (map g rows) = map (\<lambda>r. ang_sep_deg pp (f r) (g r)) rows"
  by (simp add: ang_sep_of_def zip_map_map zip_same_conv_map o_def ang_sep_deg_def)

subsection \<open>The loop\<close>

lemma for_each_map: "for_each (\<lambda>s i. body s (f i)) s xs = for_each body s (map f xs)"
  by (induction xs arbitrary: s) (auto split: sum.splits)

lemma for_each_cong:
  "(\<And>s i. i \<in> set xs \<Longrightarrow> body s i = body' s i) \<Longrightarrow> for_each body s xs = for_each body' s xs"
  by (induction xs arbitrary: s) (auto split: sum.splits)

lemma for_each_filter:
  "for_each (\<lambda>s i. if P i then body s i else Inr s) s xs = for_each body s (filter P xs)"
  by (induction xs arbitrary: s) (auto split: sum.splits)

lemma draw_segment_rows:
  assumes "i < length rows"
  shows "draw_segment e (map fx rows) (map fy rows) (map tx rows) (map ty rows) col img i =
         draw_projected e col img (fx (rows ! i), fy (rows ! i)) (tx (rows ! i), ty (rows ! i))"
  using assms
  by (simp add: draw_segment_def draw_projected_def pixel_coord_def getitem_def
      cong: sum.case_cong)

lemma loop_body_rows:
  assumes "i < length rows"
  shows "loop_body e (map fx rows) (map fy rows) (map tx rows) (map ty rows) (map s rows) sep col img i =
         (if s (rows ! i) < sep
          then draw_projected e col img (fx (rows ! i), fy (rows ! i)) (tx (rows ! i), ty (rows ! i))
          else Inr img)"
  using assms by (simp add: loop_body_def getitem_def draw_segment_rows)

lemma loop_rows:
  "for_each (loop_body e (map fx rows) (map fy rows) (map tx rows) (map ty rows) (map s rows) sep col)
      img [0..<length rows] =
   for_each (\<lambda>im r. draw_projected e col im (fx r, fy r) (tx r, ty r)) img
      (filter (\<lambda>r. s r < sep) rows)"
proof -
  let ?B = "\<lambda>im r. if s r < sep then draw_projected e col im (fx r, fy r) (tx r, ty r) else Inr im"
  have "for_each (loop_body e (map fx rows) (map fy rows) (map tx rows) (map ty rows) (map s rows) sep col)
      img [0..<length rows] = for_each (\<lambda>im i. ?B im (rows ! i)) img [0..<length rows]"
    by (rule for_each_cong) (simp add: loop_body_rows)
  also have "\<dots> = for_each ?B img (map (\<lambda>i. rows ! i) [0..<length rows])"
    by (rule for_each_map)
  also have "\<dots> = for_each ?B img rows" by (simp add: map_nth)
  also have "\<dots> = for_each (\<lambda>im r. draw_projected e col im (fx r, fy r) (tx r, ty r)) img
      (filter (\<lambda>r. s r < sep) rows)"
    by (rule for_each_filter)
  finally show ?thesis .
qed

text \<open>The function, on a table it accepts.\<close>

lemma drawConstellations_rows:
  assumes "alloc_canvas pp = Inr img0" and "capture_moment e ff cfg = Inr jd"
    and "catalog_file e = Rows rows" and "table_ok rows"
  shows "drawConstellations e pp ff sep col cfg =
     for_each (draw_row_checked e pp jd (if py_not col then Some default_color else None))
       img0 (filter (accepted pp sep) rows)"
proof -
  have "drawConstellations e pp ff sep col cfg =
    for_each (\<lambda>im r. draw_projected e (if py_not col then Some default_color else None) im
        (fst (project_pt e (r ! 0) (r ! 1) jd pp), snd (project_pt e (r ! 0) (r ! 1) jd pp))
        (fst (project_pt e (r ! 2) (r ! 3) jd pp), snd (project_pt e (r ! 2) (r ! 3) jd pp)))
       img0 (filter (\<lambda>r. ang_sep_deg pp (r ! 0) (r ! 1) < sep) rows)"
    using assms(1,2)
    by (simp add: drawConstellations_def load_lines_table_ok[OF assms(3,4)]
        raDecToXYPP_rows ang_sep_of_rows loop_rows)
  then show ?thesis
    by (simp add: draw_row_checked_def[abs_def] accepted_def[abs_def])
qed

subsection \<open>Line 37\<close>

lemma int_round_finite: "is_finite v \<Longrightarrow> int_round v = Inr (pixel_of v)"
  by (cases v) (simp_all add: is_finite_def int_round_def pixel_of_def)

lemma int_round_Inr: "int_round v = Inr k \<Longrightarrow> is_finite v \<and> k = pixel_of v"
  by (cases v) (simp_all add: is_finite_def int_round_def pixel_of_def)

lemma draw_projected_ok:
  assumes "drawable p" and "drawable q"
  shows "draw_projected e (Some c) img p q =
     Inr (raster_line e img (pixel_of (fst p), pixel_of (snd p))
            (pixel_of (fst q), pixel_of (snd q)) c)"
  using assms by (simp add: draw_projected_def drawable_def int_round_finite cv2_line_def)

lemma draw_projected_Inr:
  assumes "draw_projected e col img p q = Inr img'"
  shows "\<exists>c. col = Some c \<and> drawable p \<and> drawable q \<and>
     img' = raster_line e img (pixel_of (fst p), pixel_of (snd p))
            (pixel_of (fst q), pixel_of (snd q)) c"
  using assms
  by (auto simp: draw_projected_def drawable_def cv2_line_def
      split: sum.splits option.splits if_splits dest!: int_round_Inr)


subsection \<open>for_each\<close>

lemma for_each_Inr_foldl:
  assumes "\<And>s i s'. i \<in> set xs \<Longrightarrow> body s i = Inr s' \<Longrightarrow> s' = f s i"
    and "for_each body s xs = Inr t"
  shows "t = foldl f s xs"
  using assms
proof (induction xs arbitrary: s)
  case Nil then show ?case by simp
next
  case (Cons x xs)
  from Cons.prems(2) obtain s' where s': "body s x = Inr s'" and rest: "for_each body s' xs = Inr t"
    by (auto split: sum.splits)
  have "s' = f s x" using Cons.prems(1) s' by simp
  moreover have "t = foldl f s' xs" using Cons.IH[OF _ rest] Cons.prems(1) by simp
  ultimately show ?case by simp
qed

lemma for_each_all_ok:
  assumes "\<And>s i. i \<in> set xs \<Longrightarrow> body s i = Inr (f s i)"
  shows "for_each body s xs = Inr (foldl f s xs)"
  using assms by (induction xs arbitrary: s) simp_all


subsection \<open>The canvas\<close>

lemma put_pixel_dims [simp]:
  "dim0 (put_pixel c a p) = dim0 a" "dim1 (put_pixel c a p) = dim1 a" "dim2 (put_pixel c a p) = dim2 a"
  by (auto simp: put_pixel_def split: prod.splits)

lemma foldl_put_pixel_dims:
  "dim0 (foldl (put_pixel c) a ps) = dim0 a \<and> dim1 (foldl (put_pixel c) a ps) = dim1 a \<and>
   dim2 (foldl (put_pixel c) a ps) = dim2 a"
  by (induction ps arbitrary: a) simp_all

lemma raster_line_shape: "shape (raster_line e a p q c) = shape a"
  by (simp add: raster_line_def shape_def foldl_put_pixel_dims)

lemma draw_row_shape: "shape (draw_row e pp jd a r) = shape a"
  by (simp add: draw_row_def Let_def raster_line_shape)

lemma foldl_draw_row_shape: "shape (foldl (draw_row e pp jd) a rs) = shape a"
  by (induction rs arbitrary: a) (simp_all add: draw_row_shape)

lemma alloc_canvas_Inr:
  assumes "alloc_canvas pp = Inr img0"
  shows "0 \<le> Y_res pp \<and> 0 \<le> X_res pp \<and> shape img0 = (Y_res pp, X_res pp, 4) \<and>
         (\<forall>y x. elems img0 y x 3 = 0)"
  using assms
  by (auto simp: alloc_canvas_def np_zeros_def set_channel_def shape_def split: if_splits)

lemma alloc_canvas_ok:
  assumes "0 \<le> Y_res pp" and "0 \<le> X_res pp"
  shows "\<exists>img0. alloc_canvas pp = Inr img0"
  using assms by (simp add: alloc_canvas_def np_zeros_def)

subsection \<open>The function\<close>

lemma draw_row_checked_Inr:
  assumes "draw_row_checked e pp jd (if b then Some default_color else None) img r = Inr img'"
  shows "img' = draw_row e pp jd img r"
  using draw_projected_Inr[OF assms[unfolded draw_row_checked_def]]
  by (auto simp: draw_row_def Let_def split: if_splits)

lemma drawConstellations_Inr:
  assumes "drawConstellations e pp ff sep col cfg = Inr img"
  shows "\<exists>img0 jd rows. alloc_canvas pp = Inr img0 \<and> capture_moment e ff cfg = Inr jd \<and>
     catalog_file e = Rows rows \<and> table_ok rows \<and>
     img = foldl (draw_row e pp jd) img0 (filter (accepted pp sep) rows)"
proof -
  from assms obtain img0 jd segs where a: "alloc_canvas pp = Inr img0"
    and c: "capture_moment e ff cfg = Inr jd" and l: "load_lines e = Inr segs"
    by (auto simp: drawConstellations_def split: sum.splits)
  from load_lines_Inr[OF l] obtain rows where r: "catalog_file e = Rows rows" "table_ok rows"
    by blast
  from assms have "for_each (draw_row_checked e pp jd (if py_not col then Some default_color else None))
       img0 (filter (accepted pp sep) rows) = Inr img"
    by (simp add: drawConstellations_rows[OF a c r])
  then have "img = foldl (draw_row e pp jd) img0 (filter (accepted pp sep) rows)"
    by (rule for_each_Inr_foldl[rotated]) (rule draw_row_checked_Inr)
  with a c r show ?thesis by blast
qed

lemma filter_none:
  assumes "sep \<le> 0"
  shows "filter (accepted pp sep) rows = []"
  using assms ang_sep_deg_range[of pp] by (auto simp: accepted_def filter_empty_conv not_less intro: order_trans)


subsection \<open>The small instance, evaluated\<close>

lemma ang_sep_deg_quarter: "ang_sep_deg demo_platepar 0 90 = 90"
  by (simp add: ang_sep_deg_def demo_platepar_def deg2rad_def rad2deg_def angularSeparation_def)

lemma demo_alloc: "alloc_canvas demo_platepar = Inr demo_blank"
  by (simp add: alloc_canvas_def np_zeros_def set_channel_def demo_platepar_def demo_blank_def
      cong: if_cong)

lemma demo_capture:
  "capture_moment demo_env demo_ff (Some demo_config) = Inr demo_jd"
  "capture_moment demo_env_nan demo_ff (Some demo_config) = Inr demo_jd"
  by (simp_all add: capture_moment_def demo_env_def demo_env_nan_def)

lemma demo_table_ok: "table_ok demo_rows"
  by (simp add: table_ok_def rectangular_def demo_rows_def)

lemma demo_catalog:
  "catalog_file demo_env = Rows demo_rows" "catalog_file demo_env_nan = Rows demo_rows"
  by (simp_all add: demo_env_def demo_env_nan_def)

lemma demo_accepted_90: "filter (accepted demo_platepar 90) demo_rows = [[0, 0, 2, 1]]"
  by (simp add: accepted_def demo_rows_def ang_sep_deg_centre ang_sep_deg_quarter)


lemma py_round_numerals: "py_round 0 = 0" "py_round 1 = 1" "py_round 2 = 2" "py_round 90 = 90"
  by (simp_all add: py_round_def)

lemma demo_drawable: 
  "drawable (Finite 0, Finite 0)" "drawable (Finite 2, Finite 1)" "drawable (Finite 1, Finite 2)" "drawable (Finite 0, Finite 90)"
  by (simp_all add: drawable_def is_finite_def pixel_of_def fits_c_int_def py_round_numerals)

lemma demo_project:
  "project_pt demo_env ra dec jd pp = (Finite ra, Finite dec)"
  "project_pt demo_env_nan ra dec jd pp = (if ra = 1 then NaN else Finite ra, Finite dec)"
  by (simp_all add: demo_env_def demo_env_nan_def)

lemma demo_row_1:
  "draw_row_checked demo_env demo_platepar demo_jd (Some default_color) img [0, 0, 2, 1] =
     Inr (draw_row demo_env demo_platepar demo_jd img [0, 0, 2, 1])"
  "draw_row_checked demo_env_nan demo_platepar demo_jd (Some default_color) img [0, 0, 2, 1] =
     Inr (draw_row demo_env_nan demo_platepar demo_jd img [0, 0, 2, 1])"
  by (simp_all add: draw_row_checked_def draw_row_def demo_project draw_projected_ok demo_drawable)



lemma demo_row_1_unbound:
  "draw_row_checked demo_env demo_platepar demo_jd None img [0, 0, 2, 1] = Inl UnboundLocalError"
  by (simp add: draw_row_checked_def demo_project draw_projected_def int_round_def)

lemma demo_render_90:
  "drawConstellations demo_env demo_platepar demo_ff 90 None (Some demo_config) =
     Inr (draw_row demo_env demo_platepar demo_jd demo_blank [0, 0, 2, 1])"
  unfolding drawConstellations_rows[OF demo_alloc demo_capture(1) demo_catalog(1) demo_table_ok]
  by (simp add: demo_accepted_90 py_not_def demo_row_1)


lemma demo_render_color:
  "drawConstellations demo_env demo_platepar demo_ff 90 (Some [0, 255, 0, 255]) (Some demo_config) = Inl UnboundLocalError"
  unfolding drawConstellations_rows[OF demo_alloc demo_capture(1) demo_catalog(1) demo_table_ok]
  by (simp add: demo_accepted_90 py_not_def demo_row_1_unbound)

lemma elems_put_pixel:
  "elems (put_pixel c a (x, y)) y' x' k =
     (if y < dim0 a \<and> x < dim1 a \<and> y' = y \<and> x' = x then scalar_channel c k
      else elems a y' x' k)"
  by (simp add: put_pixel_def)

lemma default_channels:
  "scalar_channel default_color 0 = 255" "scalar_channel default_color (Suc 0) = 0"
  "scalar_channel default_color 2 = 0" "scalar_channel default_color 3 = 192"
  by (simp_all add: scalar_channel_def default_color_def saturate_u8_def)

lemma demo_line_pixels:
  "line_pixels demo_env sz p q = [(nat (fst p), nat (snd p)), (nat (fst q), nat (snd q))]"
  by (simp add: demo_env_def)

lemma demo_blank_sel: "dim0 demo_blank = 3" "dim1 demo_blank = 4" "elems demo_blank y x k = 0"
  by (simp_all add: demo_blank_def)

lemma demo_pixels:
  "map (elems (draw_row demo_env demo_platepar demo_jd demo_blank [0, 0, 2, 1]) 0 0) [0, 1, 2, 3] = [255, 0, 0, 192]"
  "map (elems (draw_row demo_env demo_platepar demo_jd demo_blank [0, 0, 2, 1]) 1 2) [0, 1, 2, 3] = [255, 0, 0, 192]"
  "map (elems (draw_row demo_env demo_platepar demo_jd demo_blank [0, 0, 2, 1]) 1 1) [0, 1, 2, 3] = [0, 0, 0, 0]"
  by (simp_all add: draw_row_def demo_project raster_line_def demo_line_pixels elems_put_pixel
      demo_blank_sel pixel_of_def py_round_numerals default_channels)

subsection \<open>Rows, one at a time\<close>

lemma draw_row_checked_ok:
  assumes "row_drawable e pp jd r"
  shows "draw_row_checked e pp jd (Some default_color) img r = Inr (draw_row e pp jd img r)"
  using assms
  by (simp add: row_drawable_def draw_row_checked_def draw_row_def Let_def draw_projected_ok)


lemma accepted_rows_eq:
  "filter (\<lambda>r. ang_sep_deg pp (r ! 0) (r ! 1) < sep) rows = filter (accepted pp sep) rows"
  by (simp add: accepted_def[abs_def])

lemma load_lines_short:
  assumes "catalog_file e = Rows rows" and "length rows < 2"
  shows "load_lines e = Inl IndexError"
proof -
  consider "rows = []" | r where "rows = [r]"
    using assms(2) by (cases rows; cases "tl rows") auto
  then show ?thesis
  proof cases
    case 1
    then show ?thesis using assms(1)
      by (simp add: load_lines_def loadtxt_def rectangular_def squeeze_def column_def)
  next
    case 2
    then show ?thesis using assms(1)
      by (simp add: load_lines_def loadtxt_def rectangular_def squeeze_def column_def
          split: list.splits)
  qed
qed

lemma drawConstellations_ok:
  assumes "alloc_canvas pp = Inr img0" and "capture_moment e ff cfg = Inr jd"
    and "catalog_file e = Rows rows" and "table_ok rows" and "py_not col"
    and "\<forall>r \<in> set rows. accepted pp sep r \<longrightarrow> row_drawable e pp jd r"
  shows "drawConstellations e pp ff sep col cfg =
     Inr (foldl (draw_row e pp jd) img0 (filter (accepted pp sep) rows))"
proof -
  have "drawConstellations e pp ff sep col cfg =
     for_each (draw_row_checked e pp jd (Some default_color)) img0 (filter (accepted pp sep) rows)"
    using assms(5) by (simp add: drawConstellations_rows[OF assms(1-4)])
  also have "\<dots> = Inr (foldl (draw_row e pp jd) img0 (filter (accepted pp sep) rows))"
    using assms(6) by (intro for_each_all_ok draw_row_checked_ok) simp
  finally show ?thesis .
qed

subsection \<open>More of the small instance\<close>

lemma demo_rows_90:
  "\<forall>r \<in> set demo_rows. ang_sep_deg demo_platepar (r ! 0) (r ! 1) < 90 \<longrightarrow>
     row_drawable demo_env demo_platepar demo_jd r"
  by (simp add: demo_rows_def ang_sep_deg_centre ang_sep_deg_quarter row_drawable_def
      demo_project demo_drawable)


lemma demo_empty_pre:
  "catalog_file (demo_env\<lparr>catalog_file := Rows []\<rparr>) = Rows []"
  "capture_moment (demo_env\<lparr>catalog_file := Rows []\<rparr>) demo_ff (Some demo_config) = Inr demo_jd"
  by (simp_all add: capture_moment_def demo_env_def)

lemma demo_missing_pre:
  "catalog_file (demo_env\<lparr>catalog_file := Missing\<rparr>) = Missing"
  "capture_moment (demo_env\<lparr>catalog_file := Missing\<rparr>) demo_ff (Some demo_config) = Inr demo_jd"
  by (simp_all add: capture_moment_def demo_env_def)



subsection \<open>The pixels of the lines\<close>

lemma elems_foldl_put_pixel:
  "elems (foldl (put_pixel c) a ps) y x k =
     (if y < dim0 a \<and> x < dim1 a \<and> (x, y) \<in> set ps then scalar_channel c k
      else elems a y x k)"
proof (induction ps arbitrary: a)
  case Nil
  then show ?case by simp
next
  case (Cons p ps)
  obtain px py where p: "p = (px, py)" by (cases p)
  show ?case
    by (auto simp: Cons.IH p elems_put_pixel)
qed

lemma draw_row_pixels:
  "draw_row e pp jd a r = foldl (put_pixel default_color) a (row_pixels e pp jd a r)"
  by (simp add: draw_row_def row_pixels_def raster_line_def Let_def)

lemma draw_row_dims [simp]:
  "dim0 (draw_row e pp jd a r) = dim0 a" "dim1 (draw_row e pp jd a r) = dim1 a"
  by (simp_all add: draw_row_pixels foldl_put_pixel_dims)

lemma row_pixels_same_size:
  "dim0 a' = dim0 a \<Longrightarrow> dim1 a' = dim1 a \<Longrightarrow> row_pixels e pp jd a' r = row_pixels e pp jd a r"
  by (simp add: row_pixels_def)

lemma covered_same_size:
  "dim0 a' = dim0 a \<Longrightarrow> dim1 a' = dim1 a \<Longrightarrow> covered e pp jd a' rs y x = covered e pp jd a rs y x"
  by (simp add: covered_def row_pixels_same_size[of a' a])

lemma covered_Cons:
  "covered e pp jd a (r # rs) y x =
     ((y < dim0 a \<and> x < dim1 a \<and> (x, y) \<in> set (row_pixels e pp jd a r)) \<or> covered e pp jd a rs y x)"
  by (auto simp: covered_def)

lemma elems_foldl_draw_row:
  "elems (foldl (draw_row e pp jd) a rs) y x k =
     (if covered e pp jd a rs y x then scalar_channel default_color k else elems a y x k)"
proof (induction rs arbitrary: a)
  case Nil
  then show ?case by (simp add: covered_def)
next
  case (Cons r rs)
  have c: "covered e pp jd (draw_row e pp jd a r) rs y x = covered e pp jd a rs y x"
    by (rule covered_same_size) simp_all
  have d: "elems (draw_row e pp jd a r) y x k =
      (if y < dim0 a \<and> x < dim1 a \<and> (x, y) \<in> set (row_pixels e pp jd a r)
       then scalar_channel default_color k else elems a y x k)"
    by (simp add: draw_row_pixels elems_foldl_put_pixel)
  have "elems (foldl (draw_row e pp jd) (draw_row e pp jd a r) rs) y x k =
      (if covered e pp jd a rs y x then scalar_channel default_color k
       else elems (draw_row e pp jd a r) y x k)"
    by (simp add: Cons.IH c)
  then show ?case
    by (auto simp: d covered_Cons)
qed

lemma alloc_canvas_zero:
  assumes "alloc_canvas pp = Inr img0"
  shows "elems img0 y x k = 0"
  using assms
  by (auto simp: alloc_canvas_def np_zeros_def set_channel_def split: if_splits)

lemma demo_one_row_pre:
  "catalog_file demo_env_one_row = Rows [[0, 0, 2, 1]]"
  "capture_moment demo_env_one_row demo_ff (Some demo_config) = Inr demo_jd"
  by (simp_all add: capture_moment_def demo_env_one_row_def demo_env_def)

lemma demo_covered:
  "covered demo_env demo_platepar demo_jd demo_blank [[0, 0, 2, 1]] 0 0"
  "covered demo_env demo_platepar demo_jd demo_blank [[0, 0, 2, 1]] 1 2"
  "\<not> covered demo_env demo_platepar demo_jd demo_blank [[0, 0, 2, 1]] 2 1"
  by (simp_all add: covered_def row_pixels_def demo_project demo_line_pixels pixel_of_def
      py_round_numerals demo_blank_sel)

section \<open>The claims\<close>

text \<open>
  In the statements below, \<open>alloc_canvas pp = Inr img0\<close>, \<open>capture_moment e ff cfg = Inr jd\<close>
  and \<open>catalog_file e = Rows rows\<close> with \<open>table_ok rows\<close> say that lines 22 to 31 went
  through: the canvas was allocated, the middle time of the file was computed, and the
  table of lines was read and sliced into its four columns.
\<close>

subsection \<open>C1: a projection that is not finite\<close>




subsection \<open>C2: the filter\<close>

text \<open>
  C2, as stated for every table and every call, fails. A table of one row starting at the
  pointing centre is read by \<open>np.loadtxt\<close> as a vector, line 30 raises IndexError, and
  the segment, at separation 0 and below the threshold 90, is not drawn.
\<close>

theorem one_row_catalog_segment_not_drawn:
  "ang_sep_deg demo_platepar 0 0 < 90
   \<and> drawConstellations demo_env_one_row demo_platepar demo_ff 90 None (Some demo_config) =
       Inl IndexError"
  by (simp add: ang_sep_deg_centre drawConstellations_def demo_alloc demo_one_row_pre(2)
      load_lines_short[OF demo_one_row_pre(1)])

text \<open>
  C2, amended. Whenever the call returns a canvas, that canvas is the transparent one with
  the lines of exactly those rows drawn, in the order of the table, whose first endpoint is
  less than the threshold away from the pointing centre: a pixel has the default colour if
  it lies on the canvas and on the line of such a row, and is 0 in every channel otherwise.
  The second endpoint (fields 2 and 3 of a row) does not occur in the test. The call does
  return that canvas when the table has at least two rows of at least four fields, no
  colour is given, and the rows that pass the test project to pixels the line primitive
  takes. With such a table and threshold 0 no row passes, and the call returns the
  transparent canvas.
\<close>

theorem segment_drawn_iff_from_separation_below_threshold:
  "(\<forall>img. drawConstellations e pp ff sep col cfg = Inr img \<longrightarrow>
      (\<exists>img0 jd rows. alloc_canvas pp = Inr img0 \<and> capture_moment e ff cfg = Inr jd \<and>
         catalog_file e = Rows rows \<and>
         img = foldl (draw_row e pp jd) img0
                 (filter (\<lambda>r. ang_sep_deg pp (r ! 0) (r ! 1) < sep) rows) \<and>
         (\<forall>y x k. elems img y x k =
            (if covered e pp jd img0
                  (filter (\<lambda>r. ang_sep_deg pp (r ! 0) (r ! 1) < sep) rows) y x
             then scalar_channel default_color k else 0))))
   \<and> (\<forall>img0 jd rows. alloc_canvas pp = Inr img0 \<and> capture_moment e ff cfg = Inr jd \<and>
         catalog_file e = Rows rows \<and> table_ok rows \<and> py_not col \<and>
         (\<forall>r \<in> set rows. ang_sep_deg pp (r ! 0) (r ! 1) < sep \<longrightarrow> row_drawable e pp jd r) \<longrightarrow>
         drawConstellations e pp ff sep col cfg =
           Inr (foldl (draw_row e pp jd) img0
                  (filter (\<lambda>r. ang_sep_deg pp (r ! 0) (r ! 1) < sep) rows)))
   \<and> (\<forall>img0 jd rows. alloc_canvas pp = Inr img0 \<and> capture_moment e ff cfg = Inr jd \<and>
         catalog_file e = Rows rows \<and> table_ok rows \<longrightarrow>
         drawConstellations e pp ff 0 col cfg = Inr img0)"
proof (intro conjI allI impI)
  fix img assume "drawConstellations e pp ff sep col cfg = Inr img"
  from drawConstellations_Inr[OF this] obtain img0 jd rows where
    a: "alloc_canvas pp = Inr img0" and c: "capture_moment e ff cfg = Inr jd"
    and r: "catalog_file e = Rows rows"
    and img: "img = foldl (draw_row e pp jd) img0 (filter (accepted pp sep) rows)"
    by blast
  have "\<forall>y x k. elems img y x k =
      (if covered e pp jd img0 (filter (accepted pp sep) rows) y x
       then scalar_channel default_color k else 0)"
    unfolding img by (simp add: elems_foldl_draw_row alloc_canvas_zero[OF a])
  with a c r img
  show "\<exists>img0 jd rows. alloc_canvas pp = Inr img0 \<and> capture_moment e ff cfg = Inr jd \<and>
         catalog_file e = Rows rows \<and>
         img = foldl (draw_row e pp jd) img0
                 (filter (\<lambda>r. ang_sep_deg pp (r ! 0) (r ! 1) < sep) rows) \<and>
         (\<forall>y x k. elems img y x k =
            (if covered e pp jd img0
                  (filter (\<lambda>r. ang_sep_deg pp (r ! 0) (r ! 1) < sep) rows) y x
             then scalar_channel default_color k else 0))"
    unfolding accepted_rows_eq by blast
next
  fix img0 jd rows
  assume a: "alloc_canvas pp = Inr img0 \<and> capture_moment e ff cfg = Inr jd \<and>
         catalog_file e = Rows rows \<and> table_ok rows \<and> py_not col \<and>
         (\<forall>r \<in> set rows. ang_sep_deg pp (r ! 0) (r ! 1) < sep \<longrightarrow> row_drawable e pp jd r)"
  then have "drawConstellations e pp ff sep col cfg =
     Inr (foldl (draw_row e pp jd) img0 (filter (accepted pp sep) rows))"
    by (intro drawConstellations_ok) (simp_all add: accepted_def)
  then show "drawConstellations e pp ff sep col cfg =
           Inr (foldl (draw_row e pp jd) img0
                  (filter (\<lambda>r. ang_sep_deg pp (r ! 0) (r ! 1) < sep) rows))"
    by (simp only: accepted_rows_eq)
next
  fix img0 jd rows
  assume a: "alloc_canvas pp = Inr img0 \<and> capture_moment e ff cfg = Inr jd \<and>
         catalog_file e = Rows rows \<and> table_ok rows"
  then have "drawConstellations e pp ff 0 col cfg =
     for_each (draw_row_checked e pp jd (if py_not col then Some default_color else None))
       img0 (filter (accepted pp 0) rows)"
    by (intro drawConstellations_rows) simp_all
  then show "drawConstellations e pp ff 0 col cfg = Inr img0"
    by (simp add: filter_none)
qed

text \<open>
  On the small instance at threshold 90 the first line (separation 0) is drawn, its two
  end pixels in the default colour, and the second (separation 90, not less than 90) is
  not: the pixel of its second endpoint stays 0. At threshold 0 nothing is drawn.
\<close>

theorem segment_drawn_iff_from_separation_below_threshold_witness:
  "alloc_canvas demo_platepar = Inr demo_blank
   \<and> capture_moment demo_env demo_ff (Some demo_config) = Inr demo_jd
   \<and> catalog_file demo_env = Rows demo_rows \<and> table_ok demo_rows \<and> py_not None
   \<and> filter (\<lambda>r. ang_sep_deg demo_platepar (r ! 0) (r ! 1) < 90) demo_rows = [[0, 0, 2, 1]]
   \<and> row_drawable demo_env demo_platepar demo_jd [0, 0, 2, 1]
   \<and> drawConstellations demo_env demo_platepar demo_ff 90 None (Some demo_config) =
       Inr (foldl (draw_row demo_env demo_platepar demo_jd) demo_blank [[0, 0, 2, 1]])
   \<and> map (elems (foldl (draw_row demo_env demo_platepar demo_jd) demo_blank [[0, 0, 2, 1]]) 0 0)
       [0, 1, 2, 3] = [255, 0, 0, 192]
   \<and> map (elems (foldl (draw_row demo_env demo_platepar demo_jd) demo_blank [[0, 0, 2, 1]]) 1 2)
       [0, 1, 2, 3] = [255, 0, 0, 192]
   \<and> map (elems (foldl (draw_row demo_env demo_platepar demo_jd) demo_blank [[0, 0, 2, 1]]) 2 1)
       [0, 1, 2, 3] = [0, 0, 0, 0]
   \<and> drawConstellations demo_env demo_platepar demo_ff 0 None (Some demo_config) = Inr demo_blank"
proof -
  note inst = segment_drawn_iff_from_separation_below_threshold
      [of demo_env demo_platepar demo_ff 90 None "Some demo_config"]
  let ?img = "foldl (draw_row demo_env demo_platepar demo_jd) demo_blank [[0, 0, 2, 1]]"
  have n: "py_not None" by (simp add: py_not_def)
  have f: "filter (\<lambda>r. ang_sep_deg demo_platepar (r ! 0) (r ! 1) < 90) demo_rows = [[0, 0, 2, 1]]"
    using demo_accepted_90 by (simp only: accepted_rows_eq)
  from inst[THEN conjunct2, THEN conjunct1, rule_format, of demo_blank demo_jd demo_rows]
    demo_alloc demo_capture(1) demo_catalog(1) demo_table_ok n demo_rows_90
  have "drawConstellations demo_env demo_platepar demo_ff 90 None (Some demo_config) =
       Inr (foldl (draw_row demo_env demo_platepar demo_jd) demo_blank
         (filter (\<lambda>r. ang_sep_deg demo_platepar (r ! 0) (r ! 1) < 90) demo_rows))"
    by blast
  then have 1: "drawConstellations demo_env demo_platepar demo_ff 90 None (Some demo_config) =
       Inr ?img"
    by (simp only: f)
  from inst[THEN conjunct1, rule_format, OF 1] obtain img0 jd rows where
    "alloc_canvas demo_platepar = Inr img0"
    "capture_moment demo_env demo_ff (Some demo_config) = Inr jd"
    "catalog_file demo_env = Rows rows"
    "\<forall>y x k. elems ?img y x k =
        (if covered demo_env demo_platepar jd img0
              (filter (\<lambda>r. ang_sep_deg demo_platepar (r ! 0) (r ! 1) < 90) rows) y x
         then scalar_channel default_color k else 0)"
    by blast
  then have px: "elems ?img y x k =
        (if covered demo_env demo_platepar demo_jd demo_blank [[0, 0, 2, 1]] y x
         then scalar_channel default_color k else 0)" for y x k
    using f by (simp add: demo_alloc demo_capture(1) demo_catalog(1))
  have 3: "map (elems ?img 0 0) [0, 1, 2, 3] = [255, 0, 0, 192]"
    "map (elems ?img 1 2) [0, 1, 2, 3] = [255, 0, 0, 192]"
    "map (elems ?img 2 1) [0, 1, 2, 3] = [0, 0, 0, 0]"
    unfolding list.map px using demo_covered by (simp_all add: default_channels)
  from inst[THEN conjunct2, THEN conjunct2, rule_format, of demo_blank demo_jd demo_rows]
    demo_alloc demo_capture(1) demo_catalog(1) demo_table_ok
  have 2: "drawConstellations demo_env demo_platepar demo_ff 0 None (Some demo_config) =
      Inr demo_blank"
    by blast
  have d: "row_drawable demo_env demo_platepar demo_jd [0, 0, 2, 1]"
    by (simp add: row_drawable_def demo_project demo_drawable)
  from 1 2 3 f n d demo_alloc demo_capture(1) demo_catalog(1) demo_table_ok show ?thesis
    by simp
qed

subsection \<open>C3: the colour\<close>

text \<open>
  C3. The parameter is called \<open>color_bgra\<close>, the variable that line 37 reads
  \<open>color_bgr\<close>, and the latter is assigned only when no colour was given. With the
  colour [0, 255, 0, 255] the first accepted line of the small instance raises
  UnboundLocalError instead of being drawn in that colour; without a colour the same call
  returns the canvas, the line drawn in the default [255, 0, 0, 192].
\<close>

theorem supplied_color_unbound_local:
  "drawConstellations demo_env demo_platepar demo_ff 90 (Some [0, 255, 0, 255]) (Some demo_config) =
     Inl UnboundLocalError
   \<and> drawConstellations demo_env demo_platepar demo_ff 90 None (Some demo_config) =
     Inr (draw_row demo_env demo_platepar demo_jd demo_blank [0, 0, 2, 1])
   \<and> map (elems (draw_row demo_env demo_platepar demo_jd demo_blank [0, 0, 2, 1]) 0 0) [0, 1, 2, 3] =
     [255, 0, 0, 192]"
  using demo_render_color demo_render_90 demo_pixels(1) by simp

subsection \<open>C4: the empty table\<close>

text \<open>
  C4, as stated, fails. The table is read with \<open>np.loadtxt\<close>, which gives a vector, not a
  matrix, for a file of no rows; line 30 then indexes it with two indices. On the small
  instance with an empty file the call raises IndexError.
\<close>

theorem empty_catalog_raises:
  "drawConstellations (demo_env\<lparr>catalog_file := Rows []\<rparr>) demo_platepar demo_ff 90 None
     (Some demo_config) = Inl IndexError"
  by (simp add: drawConstellations_def demo_alloc demo_empty_pre
      load_lines_short[OF demo_empty_pre(1)])

text \<open>
  C4, amended. Once the canvas is allocated and the capture moment computed, a table of
  fewer than two rows (the empty one among them) makes the call raise IndexError. The
  transparent canvas is returned, whatever the calibration, when the table is one the
  function can slice and none of its rows passes the separation test; the canvas allocated
  on lines 24 and 25 has alpha 0 everywhere.
\<close>

theorem empty_catalog_index_error:
  assumes "alloc_canvas pp = Inr img0" and "capture_moment e ff cfg = Inr jd"
    and "catalog_file e = Rows rows"
  shows "(length rows < 2 \<longrightarrow> drawConstellations e pp ff sep col cfg = Inl IndexError)
       \<and> (table_ok rows \<and> filter (accepted pp sep) rows = [] \<longrightarrow>
            drawConstellations e pp ff sep col cfg = Inr img0)
       \<and> (\<forall>y x. elems img0 y x 3 = 0)"
proof (intro conjI impI)
  assume "length rows < 2"
  from load_lines_short[OF assms(3) this] assms(1,2)
  show "drawConstellations e pp ff sep col cfg = Inl IndexError"
    by (simp add: drawConstellations_def)
next
  assume "table_ok rows \<and> filter (accepted pp sep) rows = []"
  then show "drawConstellations e pp ff sep col cfg = Inr img0"
    using assms by (simp add: drawConstellations_rows)
next
  show "\<forall>y x. elems img0 y x 3 = 0" using alloc_canvas_Inr[OF assms(1)] by simp
qed

text \<open>
  On the small instance: the empty file raises IndexError; the table of two rows at
  threshold 0 gives the transparent canvas.
\<close>

theorem empty_catalog_index_error_witness:
  "alloc_canvas demo_platepar = Inr demo_blank
   \<and> capture_moment (demo_env\<lparr>catalog_file := Rows []\<rparr>) demo_ff (Some demo_config) = Inr demo_jd
   \<and> catalog_file (demo_env\<lparr>catalog_file := Rows []\<rparr>) = Rows []
   \<and> drawConstellations (demo_env\<lparr>catalog_file := Rows []\<rparr>) demo_platepar demo_ff 90 None
       (Some demo_config) = Inl IndexError
   \<and> table_ok demo_rows \<and> filter (accepted demo_platepar 0) demo_rows = []
   \<and> drawConstellations demo_env demo_platepar demo_ff 0 None (Some demo_config) = Inr demo_blank
   \<and> elems demo_blank 1 2 3 = 0"
proof -
  from empty_catalog_index_error[OF demo_alloc demo_empty_pre(2) demo_empty_pre(1), of 90 None]
  have 1: "drawConstellations (demo_env\<lparr>catalog_file := Rows []\<rparr>) demo_platepar demo_ff 90 None
       (Some demo_config) = Inl IndexError" and 3: "elems demo_blank 1 2 3 = 0"
    by simp_all
  have none: "filter (accepted demo_platepar 0) demo_rows = []" by (simp add: filter_none)
  from empty_catalog_index_error[OF demo_alloc demo_capture(1) demo_catalog(1), of 0 None]
    demo_table_ok none
  have 2: "drawConstellations demo_env demo_platepar demo_ff 0 None (Some demo_config) =
      Inr demo_blank"
    by blast
  from 1 2 3 none demo_table_ok demo_alloc demo_empty_pre show ?thesis by simp
qed

subsection \<open>C5: the threshold is not checked\<close>




subsection \<open>C6: the canvas\<close>

text \<open>
  C6. For a calibration with positive \<open>X_res\<close> and \<open>Y_res\<close> the canvas is allocated, has
  shape \<open>(Y_res, X_res, 4)\<close> and alpha 0 at every pixel; every canvas the call returns is
  that canvas with lines drawn on it, and has the same shape.
\<close>

theorem canvas_shape_and_transparent_allocation:
  assumes "0 < X_res pp" and "0 < Y_res pp"
  shows "\<exists>img0. alloc_canvas pp = Inr img0 \<and> shape img0 = (Y_res pp, X_res pp, 4) \<and>
     (\<forall>y x. elems img0 y x 3 = 0) \<and>
     (\<forall>img. drawConstellations e pp ff sep col cfg = Inr img \<longrightarrow>
        shape img = (Y_res pp, X_res pp, 4) \<and>
        (\<exists>jd rs. img = foldl (draw_row e pp jd) img0 rs))"
proof -
  from assms obtain img0 where a: "alloc_canvas pp = Inr img0"
    using alloc_canvas_ok[of pp] by auto
  note f = alloc_canvas_Inr[OF a]
  have "shape img = (Y_res pp, X_res pp, 4) \<and> (\<exists>jd rs. img = foldl (draw_row e pp jd) img0 rs)"
    if "drawConstellations e pp ff sep col cfg = Inr img" for img
  proof -
    from drawConstellations_Inr[OF that] a obtain jd rows where
      img: "img = foldl (draw_row e pp jd) img0 (filter (accepted pp sep) rows)" by auto
    then have "shape img = shape img0" by (simp add: foldl_draw_row_shape)
    with f img show ?thesis by auto
  qed
  with a f show ?thesis by blast
qed

text \<open>On the small instance, a canvas of 3 rows and 4 columns.\<close>

theorem canvas_shape_and_transparent_allocation_witness:
  "0 < X_res demo_platepar \<and> 0 < Y_res demo_platepar
   \<and> alloc_canvas demo_platepar = Inr demo_blank
   \<and> shape demo_blank = (3, 4, 4)
   \<and> elems demo_blank 2 3 3 = 0
   \<and> drawConstellations demo_env demo_platepar demo_ff 90 None (Some demo_config) =
       Inr (draw_row demo_env demo_platepar demo_jd demo_blank [0, 0, 2, 1])
   \<and> shape (draw_row demo_env demo_platepar demo_jd demo_blank [0, 0, 2, 1]) = (3, 4, 4)"
proof -
  have h: "0 < X_res demo_platepar" "0 < Y_res demo_platepar"
    by (simp_all add: demo_platepar_def)
  from canvas_shape_and_transparent_allocation[OF h, of demo_env demo_ff 90 None "Some demo_config"]
  obtain img0 where "alloc_canvas demo_platepar = Inr img0"
    "shape img0 = (Y_res demo_platepar, X_res demo_platepar, 4)" "\<forall>y x. elems img0 y x 3 = 0"
    "\<forall>img. drawConstellations demo_env demo_platepar demo_ff 90 None (Some demo_config) = Inr img \<longrightarrow>
        shape img = (Y_res demo_platepar, X_res demo_platepar, 4)"
    by blast
  with h demo_alloc demo_render_90 show ?thesis
    by (simp add: demo_platepar_def)
qed

subsection \<open>C7: the separation\<close>

text \<open>
  C7. The array \<open>ang_sep\<close> of line 33 holds, for every row, the arc cosine of
  \<open>sin(dec1) sin(dec2) + cos(dec1) cos(dec2) cos(ra1 - ra2)\<close> times \<open>180 / pi\<close>, where
  \<open>(ra1, dec1)\<close> is the pointing centre and \<open>(ra2, dec2)\<close> the first endpoint of the row,
  each multiplied by \<open>pi / 180\<close>; and the call is line 37 run on the rows for which this
  value is less than the threshold.
\<close>

theorem filter_uses_law_of_cosines_in_degrees:
  assumes "alloc_canvas pp = Inr img0" and "capture_moment e ff cfg = Inr jd"
    and "catalog_file e = Rows rows" and "table_ok rows"
  shows "ang_sep_of pp (map (\<lambda>r. r ! 0) rows) (map (\<lambda>r. r ! 1) rows) =
       map (\<lambda>r. arccos (sin (dec_d pp * (pi / 180)) * sin (r ! 1 * (pi / 180)) +
                        cos (dec_d pp * (pi / 180)) * cos (r ! 1 * (pi / 180)) *
                        cos (RA_d pp * (pi / 180) - r ! 0 * (pi / 180))) * (180 / pi)) rows
     \<and> drawConstellations e pp ff sep col cfg =
       for_each (draw_row_checked e pp jd (if py_not col then Some default_color else None)) img0
         (filter (\<lambda>r. arccos (sin (dec_d pp * (pi / 180)) * sin (r ! 1 * (pi / 180)) +
                              cos (dec_d pp * (pi / 180)) * cos (r ! 1 * (pi / 180)) *
                              cos (RA_d pp * (pi / 180) - r ! 0 * (pi / 180))) * (180 / pi) < sep)
            rows)"
proof -
  have sep_eq: "ang_sep_deg pp ra dec =
      arccos (sin (dec_d pp * (pi / 180)) * sin (dec * (pi / 180)) +
              cos (dec_d pp * (pi / 180)) * cos (dec * (pi / 180)) *
              cos (RA_d pp * (pi / 180) - ra * (pi / 180))) * (180 / pi)" for ra dec
    by (simp add: ang_sep_deg_def angularSeparation_def deg2rad_def rad2deg_def)
  show ?thesis
    unfolding drawConstellations_rows[OF assms] ang_sep_of_rows accepted_def[abs_def] sep_eq
    by simp
qed

text \<open>On the small instance the two separations are 0 and 90 degrees.\<close>

theorem filter_uses_law_of_cosines_in_degrees_witness:
  "alloc_canvas demo_platepar = Inr demo_blank
   \<and> capture_moment demo_env demo_ff (Some demo_config) = Inr demo_jd
   \<and> catalog_file demo_env = Rows demo_rows \<and> table_ok demo_rows
   \<and> ang_sep_of demo_platepar (map (\<lambda>r. r ! 0) demo_rows) (map (\<lambda>r. r ! 1) demo_rows) = [0, 90]
   \<and> drawConstellations demo_env demo_platepar demo_ff 90 None (Some demo_config) =
       for_each (draw_row_checked demo_env demo_platepar demo_jd (Some default_color)) demo_blank
         [[0, 0, 2, 1]]"
proof -
  note inst = filter_uses_law_of_cosines_in_degrees
      [OF demo_alloc demo_capture(1) demo_catalog(1) demo_table_ok, of 90 None]
  have 1: "ang_sep_of demo_platepar (map (\<lambda>r. r ! 0) demo_rows) (map (\<lambda>r. r ! 1) demo_rows) =
      [0, 90]"
    using inst by (simp add: demo_rows_def demo_platepar_def)
  have 2: "drawConstellations demo_env demo_platepar demo_ff 90 None (Some demo_config) =
       for_each (draw_row_checked demo_env demo_platepar demo_jd (Some default_color)) demo_blank
         [[0, 0, 2, 1]]"
    using inst by (simp add: demo_rows_def demo_platepar_def py_not_def)
  from 1 2 demo_alloc demo_capture(1) demo_catalog(1) demo_table_ok show ?thesis by simp
qed

subsection \<open>C8: where the table comes from\<close>

text \<open>
  C8, as stated, fails. The function has no parameter for the table: lines 28 and 29 read
  the file in every call. With the same arguments, the call raises OSError when the file
  cannot be opened and returns a canvas when it holds the two rows of the small instance.
\<close>

theorem render_reads_catalog_file:
  "drawConstellations (demo_env\<lparr>catalog_file := Missing\<rparr>) demo_platepar demo_ff 90 None
     (Some demo_config) = Inl OSError
   \<and> drawConstellations (demo_env\<lparr>catalog_file := Rows demo_rows\<rparr>) demo_platepar demo_ff 90 None
     (Some demo_config) = Inr (draw_row demo_env demo_platepar demo_jd demo_blank [0, 0, 2, 1])"
proof -
  have "demo_env\<lparr>catalog_file := Rows demo_rows\<rparr> = demo_env" by (simp add: demo_env_def)
  then show ?thesis
    by (simp add: demo_render_90)
      (simp add: drawConstellations_def demo_alloc demo_missing_pre load_lines_def loadtxt_def)
qed

text \<open>
  C8, amended. The table is not an argument of the call: every call that has allocated its
  canvas and computed the capture moment reads the file itself. If the file cannot be
  opened the call raises OSError, if a field is not a number ValueError; otherwise the
  lines drawn are those of the rows just read.
\<close>

theorem render_loads_catalog_each_call:
  assumes "alloc_canvas pp = Inr img0" and "capture_moment e ff cfg = Inr jd"
  shows "(catalog_file e = Missing \<longrightarrow> drawConstellations e pp ff sep col cfg = Inl OSError)
       \<and> (catalog_file e = NonNumeric \<longrightarrow> drawConstellations e pp ff sep col cfg = Inl ValueError)
       \<and> (\<forall>rows. catalog_file e = Rows rows \<and> table_ok rows \<longrightarrow>
            drawConstellations e pp ff sep col cfg =
              for_each (draw_row_checked e pp jd (if py_not col then Some default_color else None))
                img0 (filter (accepted pp sep) rows))"
proof (intro conjI allI impI)
  assume "catalog_file e = Missing"
  then show "drawConstellations e pp ff sep col cfg = Inl OSError"
    using assms by (simp add: drawConstellations_def load_lines_def loadtxt_def)
next
  assume "catalog_file e = NonNumeric"
  then show "drawConstellations e pp ff sep col cfg = Inl ValueError"
    using assms by (simp add: drawConstellations_def load_lines_def loadtxt_def)
next
  fix rows assume "catalog_file e = Rows rows \<and> table_ok rows"
  then show "drawConstellations e pp ff sep col cfg =
              for_each (draw_row_checked e pp jd (if py_not col then Some default_color else None))
                img0 (filter (accepted pp sep) rows)"
    using assms by (simp add: drawConstellations_rows)
qed

text \<open>On the small instance, with the file missing, not numeric, and as it is.\<close>

theorem render_loads_catalog_each_call_witness:
  "alloc_canvas demo_platepar = Inr demo_blank
   \<and> capture_moment (demo_env\<lparr>catalog_file := Missing\<rparr>) demo_ff (Some demo_config) = Inr demo_jd
   \<and> catalog_file (demo_env\<lparr>catalog_file := Missing\<rparr>) = Missing
   \<and> drawConstellations (demo_env\<lparr>catalog_file := Missing\<rparr>) demo_platepar demo_ff 90 None
       (Some demo_config) = Inl OSError
   \<and> drawConstellations (demo_env\<lparr>catalog_file := NonNumeric\<rparr>) demo_platepar demo_ff 90 None
       (Some demo_config) = Inl ValueError
   \<and> catalog_file demo_env = Rows demo_rows \<and> table_ok demo_rows
   \<and> drawConstellations demo_env demo_platepar demo_ff 90 None (Some demo_config) =
       for_each (draw_row_checked demo_env demo_platepar demo_jd (Some default_color)) demo_blank
         [[0, 0, 2, 1]]"
proof -
  from render_loads_catalog_each_call[OF demo_alloc demo_missing_pre(2), of 90 None]
  have 1: "drawConstellations (demo_env\<lparr>catalog_file := Missing\<rparr>) demo_platepar demo_ff 90 None
       (Some demo_config) = Inl OSError"
    by (simp add: demo_missing_pre(1))
  have c: "capture_moment (demo_env\<lparr>catalog_file := NonNumeric\<rparr>) demo_ff (Some demo_config) =
      Inr demo_jd"
    "catalog_file (demo_env\<lparr>catalog_file := NonNumeric\<rparr>) = NonNumeric"
    by (simp_all add: capture_moment_def demo_env_def)
  from render_loads_catalog_each_call[OF demo_alloc c(1), of 90 None] c(2)
  have 2: "drawConstellations (demo_env\<lparr>catalog_file := NonNumeric\<rparr>) demo_platepar demo_ff 90 None
       (Some demo_config) = Inl ValueError"
    by simp
  from render_loads_catalog_each_call[OF demo_alloc demo_capture(1), of 90 None]
    demo_catalog(1) demo_table_ok
  have 3: "drawConstellations demo_env demo_platepar demo_ff 90 None (Some demo_config) =
       for_each (draw_row_checked demo_env demo_platepar demo_jd (Some default_color)) demo_blank
         [[0, 0, 2, 1]]"
    by (simp add: py_not_def demo_accepted_90)
  from 1 2 3 demo_alloc demo_missing_pre demo_catalog(1) demo_table_ok show ?thesis by simp
qed

subsection \<open>C9: the configuration\<close>

text \<open>
  C9. A call with \<open>config = None\<close> never returns a canvas: it raises AttributeError when
  \<open>config.frames_per_block\<close> is read (or ValueError before that, when a resolution is
  negative and the canvas cannot be allocated). So every call that returns a canvas was
  given a configuration.
\<close>

theorem config_none_raises:
  "drawConstellations e pp ff sep col None =
     Inl (if Y_res pp < 0 \<or> X_res pp < 0 then ValueError else AttributeError)
   \<and> (\<forall>img. drawConstellations e pp ff sep col cfg = Inr img \<longrightarrow> (\<exists>c. cfg = Some c))"
proof
  show "drawConstellations e pp ff sep col None =
     Inl (if Y_res pp < 0 \<or> X_res pp < 0 then ValueError else AttributeError)"
    by (simp add: drawConstellations_def alloc_canvas_def np_zeros_def capture_moment_def)
  show "\<forall>img. drawConstellations e pp ff sep col cfg = Inr img \<longrightarrow> (\<exists>c. cfg = Some c)"
  proof (intro allI impI)
    fix img assume "drawConstellations e pp ff sep col cfg = Inr img"
    from drawConstellations_Inr[OF this] obtain jd where "capture_moment e ff cfg = Inr jd"
      by blast
    then show "\<exists>c. cfg = Some c"
      by (cases cfg) (simp_all add: capture_moment_def)
  qed
qed

text \<open>
  On the small instance: without a configuration the call raises AttributeError, with one
  it returns the canvas with the first line drawn.
\<close>

theorem config_none_raises_witness:
  "drawConstellations demo_env demo_platepar demo_ff 90 None None = Inl AttributeError
   \<and> drawConstellations demo_env demo_platepar demo_ff 90 None (Some demo_config) =
       Inr (draw_row demo_env demo_platepar demo_jd demo_blank [0, 0, 2, 1])
   \<and> (\<exists>c. Some demo_config = Some c)"
  using config_none_raises[of demo_env demo_platepar demo_ff 90 None "Some demo_config"]
    demo_render_90
  by (simp add: demo_platepar_def)

subsection \<open>C10: the frame rate\<close>

text \<open>
  C10. The capture moment is computed with a frame rate of 25, whatever frame rate the
  configuration holds: it is \<open>date2JD\<close> of what \<open>getMiddleTimeFF\<close> gives for the base
  name of the file, the rate 25 and the configured number of frames per block; changing
  the configured \<open>fps\<close> changes neither the capture moment nor the result of the call.
\<close>

theorem capture_moment_fixed_25_fps:
  "capture_moment e ff (Some c) =
     (case getMiddleTimeFF e (basename ff) 25 (frames_per_block c) of
        Inl err \<Rightarrow> Inl err | Inr dt \<Rightarrow> Inr (date2JD e dt))
   \<and> capture_moment e ff (Some (c\<lparr>fps := f\<rparr>)) = capture_moment e ff (Some c)
   \<and> drawConstellations e pp ff sep col (Some (c\<lparr>fps := f\<rparr>)) =
       drawConstellations e pp ff sep col (Some c)"
proof -
  have same: "capture_moment e ff (Some (c\<lparr>fps := f\<rparr>)) = capture_moment e ff (Some c)"
    by (simp add: capture_moment_def)
  have "drawConstellations e pp ff sep col (Some (c\<lparr>fps := f\<rparr>)) =
       drawConstellations e pp ff sep col (Some c)"
    unfolding drawConstellations_def same ..
  with same show ?thesis by (simp add: capture_moment_def)
qed

end
